theory Spec2Isabelle
  imports Complex_Main "HOL-Library.Char_ord" "HOL-Library.List_Lexorder"
begin

section \<open>Calendar dates and timestamps\<close>

text \<open>
  The program handles \<^verbatim>\<open>datetime.date\<close> and naive \<^verbatim>\<open>datetime.datetime\<close> values.
  A date is its three components, as the Python class stores them; comparison is
  componentwise and subtracting a \<^verbatim>\<open>timedelta\<close> goes through the proleptic Gregorian
  ordinal, following the library's reference implementation.
\<close>

record date =
  year :: nat
  month :: nat
  day :: nat

record datetime =
  dt_date :: date
  hour :: nat
  minute :: nat
  second :: nat
  microsecond :: nat

definition is_leap :: "nat \<Rightarrow> bool" where
  "is_leap y = (y mod 4 = 0 \<and> (0 < y mod 100 \<or> y mod 400 = 0))"

definition days_in_month :: "nat \<Rightarrow> nat \<Rightarrow> nat" where
  "days_in_month y m =
     (if m = 2 \<and> is_leap y then 29
      else [0, 31, 28, 31, 30, 31, 30, 31, 31, 30, 31, 30, 31] ! m)"

definition valid_date :: "date \<Rightarrow> bool" where
  "valid_date d =
     (1 \<le> year d \<and> year d \<le> 9999 \<and> 1 \<le> month d \<and> month d \<le> 12 \<and>
      1 \<le> day d \<and> day d \<le> days_in_month (year d) (month d))"

definition days_before_year :: "nat \<Rightarrow> int" where
  "days_before_year y =
     (let z = int y - 1 in z * 365 + z div 4 - z div 100 + z div 400)"

definition days_before_month :: "nat \<Rightarrow> nat \<Rightarrow> int" where
  "days_before_month y m =
     [0, 0, 31, 59, 90, 120, 151, 181, 212, 243, 273, 304, 334] ! m
       + (if 2 < m \<and> is_leap y then 1 else 0)"

definition toordinal :: "date \<Rightarrow> int" where
  "toordinal d =
     days_before_year (year d) + days_before_month (year d) (month d) + int (day d)"

definition fromordinal :: "int \<Rightarrow> date" where
  "fromordinal ordinal =
     (let n = ordinal - 1;
          n400 = n div 146097; n = n mod 146097;
          n100 = n div 36524; n = n mod 36524;
          n4 = n div 1461; n = n mod 1461;
          n1 = n div 365; n = n mod 365;
          y = nat (n400 * 400 + 1 + n100 * 100 + n4 * 4 + n1)
      in if n1 = 4 \<or> n100 = 4 then \<lparr>year = y - 1, month = 12, day = 31\<rparr>
         else
           let leapyear = (n1 = 3 \<and> (n4 < 24 \<or> 24 < n4 \<or> n100 = 3));
               m = nat ((n + 50) div 32);
               preceding =
                 [0, 0, 31, 59, 90, 120, 151, 181, 212, 243, 273, 304, 334] ! m
                   + (if 2 < m \<and> leapyear then 1 else 0);
               m' = (if n < preceding then m - 1 else m);
               preceding' =
                 (if n < preceding
                  then preceding
                         - (int ([0, 31, 28, 31, 30, 31, 30, 31, 31, 30, 31, 30, 31] ! m')
                            + (if m' = 2 \<and> leapyear then 1 else 0))
                  else preceding)
           in \<lparr>year = y, month = m', day = nat (n - preceding' + 1)\<rparr>)"

text \<open>
  \<^verbatim>\<open>d - timedelta(days=k)\<close>. The library raises when the ordinal leaves the calendar,
  which a clock reading of the year 2 or later cannot cause for the windows used here;
  that overflow is not modelled.
\<close>

definition date_sub_days :: "date \<Rightarrow> nat \<Rightarrow> date" where
  "date_sub_days d k = fromordinal (toordinal d - int k)"

definition date_le :: "date \<Rightarrow> date \<Rightarrow> bool" where
  "date_le a b =
     (year a < year b \<or>
      (year a = year b \<and> (month a < month b \<or> (month a = month b \<and> day a \<le> day b))))"

subsection \<open>Formatting\<close>

definition digit_char :: "nat \<Rightarrow> char" where
  "digit_char n = ''0123456789'' ! (n mod 10)"

definition pad2 :: "nat \<Rightarrow> string" where
  "pad2 n = [digit_char (n div 10), digit_char n]"

definition pad4 :: "nat \<Rightarrow> string" where
  "pad4 n = [digit_char (n div 1000), digit_char (n div 100), digit_char (n div 10), digit_char n]"

text \<open>\<^verbatim>\<open>date.isoformat()\<close>, which pads the year to four digits.\<close>

definition date_isoformat :: "date \<Rightarrow> string" where
  "date_isoformat d = pad4 (year d) @ ''-'' @ pad2 (month d) @ ''-'' @ pad2 (day d)"

text \<open>
  \<^verbatim>\<open>strftime\<close> hands the format to the C library, whose \<^verbatim>\<open>%Y\<close> (glibc, the library of
  the deployment) prints the year as a plain decimal number: a year before 1000 comes
  out with fewer than four digits, unlike in \<^verbatim>\<open>isoformat\<close>. \<^verbatim>\<open>%m\<close>, \<^verbatim>\<open>%d\<close>, \<^verbatim>\<open>%H\<close> and
  \<^verbatim>\<open>%M\<close> are padded to two digits. The years of a date are 1 to 9999.
\<close>

definition strftime_Y :: "nat \<Rightarrow> string" where
  "strftime_Y y =
     (if y < 10 then [digit_char y]
      else if y < 100 then [digit_char (y div 10), digit_char y]
      else if y < 1000 then [digit_char (y div 100), digit_char (y div 10), digit_char y]
      else pad4 y)"

text \<open>\<^verbatim>\<open>strftime("%Y-%m-%d")\<close> and \<^verbatim>\<open>strftime("%Y-%m")\<close>.\<close>

definition strftime_ymd :: "date \<Rightarrow> string" where
  "strftime_ymd d = strftime_Y (year d) @ ''-'' @ pad2 (month d) @ ''-'' @ pad2 (day d)"

definition strftime_ym :: "date \<Rightarrow> string" where
  "strftime_ym d = strftime_Y (year d) @ ''-'' @ pad2 (month d)"

text \<open>\<^verbatim>\<open>strftime("%Y-%m-%d %H:%M")\<close> of a timestamp.\<close>

definition strftime_ymd_hm :: "datetime \<Rightarrow> string" where
  "strftime_ymd_hm t = strftime_ymd (dt_date t) @ '' '' @ pad2 (hour t) @ '':'' @ pad2 (minute t)"

section \<open>The persistent data\<close>

text \<open>
  The two tables of the relational store. A column declared \<^verbatim>\<open>nullable=False\<close> (and the
  primary key) holds a value; the metric columns hold numbers, which the aggregation
  arithmetic relies on and every INSERT of the program guarantees through the column
  default; any other column may hold NULL. The offering column is a float in the
  source; the model computes with exact reals, so rounding is outside it.
\<close>

record leader =
  l_id :: int
  l_name :: string
  l_zone :: string
  l_cell_day :: "string option"
  l_contact_number :: "string option"
  l_email :: "string option"
  l_address :: "string option"
  l_profile_picture :: "string option"
  l_is_active :: "bool option"
  l_created_at :: "datetime option"
  l_updated_at :: "datetime option"

record service_record =
  r_id :: int
  leader_id :: int
  service_type :: string
  service_date :: date
  sunday_attendance :: int
  sunday_visitors :: int
  cell_attendance :: int
  cell_visitors :: int
  cell_offering :: real
  cell_decisions :: int
  r_notes :: "string option"
  submitted_at :: "datetime option"

record store =
  leaders :: "leader list"
  service_records :: "service_record list"

text \<open>\<^verbatim>\<open>ServiceRecord.query.join(Leader)\<close>: each record with the leader it references.\<close>

definition join_leader :: "store \<Rightarrow> (service_record \<times> leader) list" where
  "join_leader s =
     concat (map (\<lambda>r. map (\<lambda>l. (r, l)) (filter (\<lambda>l. l_id l = leader_id r) (leaders s)))
                 (service_records s))"

section \<open>Aggregation\<close>

text \<open>The type-dependent projections that the aggregation loops spell out inline.\<close>

definition attendance_of :: "service_record \<Rightarrow> int" where
  "attendance_of r =
     (if service_type r = ''sunday'' then sunday_attendance r else cell_attendance r)"

definition visitors_of :: "service_record \<Rightarrow> int" where
  "visitors_of r =
     (if service_type r = ''sunday'' then sunday_visitors r else cell_visitors r)"

definition offering_of :: "service_record \<Rightarrow> real" where
  "offering_of r = (if service_type r = ''cell'' then cell_offering r else 0)"

definition decisions_of :: "service_record \<Rightarrow> int" where
  "decisions_of r = (if service_type r = ''cell'' then cell_decisions r else 0)"

record stats =
  attendance :: int
  visitors :: int
  offering :: real
  decisions :: int
  services :: nat

record leader_stats = stats +
  zone :: string

definition zero_stats :: stats where
  "zero_stats = \<lparr>attendance = 0, visitors = 0, offering = 0, decisions = 0, services = 0\<rparr>"

definition zero_leader_stats :: "string \<Rightarrow> leader_stats" where
  "zero_leader_stats z =
     \<lparr>attendance = 0, visitors = 0, offering = 0, decisions = 0, services = 0, zone = z\<rparr>"

text \<open>The five \<^verbatim>\<open>+=\<close> statements of a loop body.\<close>

definition add_record :: "service_record \<Rightarrow> 'a stats_scheme \<Rightarrow> 'a stats_scheme" where
  "add_record r st =
     st\<lparr>attendance := attendance st + attendance_of r,
        visitors := visitors st + visitors_of r,
        offering := offering st + offering_of r,
        decisions := decisions st + decisions_of r,
        services := services st + 1\<rparr>"

text \<open>
  A dictionary in insertion order. \<open>dict_update k init f d\<close> is
  \<^verbatim>\<open>if k not in d: d[k] = init\<close> followed by the in-place update \<open>f\<close> of \<^verbatim>\<open>d[k]\<close>.
\<close>

fun dict_update :: "'k \<Rightarrow> 'v \<Rightarrow> ('v \<Rightarrow> 'v) \<Rightarrow> ('k \<times> 'v) list \<Rightarrow> ('k \<times> 'v) list" where
  "dict_update k init f [] = [(k, f init)]"
| "dict_update k init f ((k', v) # d) =
     (if k' = k then (k', f v) # d else (k', v) # dict_update k init f d)"

text \<open>
  The query arguments are optional strings (\<^verbatim>\<open>request.args.get\<close>); \<open>today\<close> is the
  clock's date. The leader filter compares the integer column with the argument's text
  inside the database; that comparison is the parameter \<open>id_eq\<close>.
\<close>

definition period_arg :: "string option \<Rightarrow> string" where
  "period_arg a = (case a of None \<Rightarrow> ''week'' | Some p \<Rightarrow> p)"

definition text_arg :: "string option \<Rightarrow> string" where
  "text_arg a = (case a of None \<Rightarrow> [] | Some z \<Rightarrow> z)"

definition overview_start_date :: "string \<Rightarrow> date \<Rightarrow> date" where
  "overview_start_date period end_date =
     (if period = ''week'' then date_sub_days end_date 7
      else if period = ''month'' then date_sub_days end_date 30
      else date_sub_days end_date 365)"

definition overview_records ::
  "(int \<Rightarrow> string \<Rightarrow> bool) \<Rightarrow> date \<Rightarrow> string option \<Rightarrow> string option \<Rightarrow> string option \<Rightarrow> store
     \<Rightarrow> (service_record \<times> leader) list" where
  "overview_records id_eq today period_a zone_a leader_a s =
     (let period = period_arg period_a;
          zone_filter = text_arg zone_a;
          leader_id_a = text_arg leader_a;
          end_date = today;
          start_date = overview_start_date period end_date;
          q = filter (\<lambda>(r, l). date_le start_date (service_date r) \<and> date_le (service_date r) end_date)
                (join_leader s);
          q = (if zone_filter \<noteq> [] then filter (\<lambda>(r, l). l_zone l = zone_filter) q else q);
          q = (if leader_id_a \<noteq> [] then filter (\<lambda>(r, l). id_eq (leader_id r) leader_id_a) q else q)
      in q)"

record overview =
  ov_period :: string
  ov_start_date :: string
  ov_end_date :: string
  total_attendance :: int
  total_visitors :: int
  total_offering :: real
  total_decisions :: int
  sunday_services :: nat
  cell_meetings :: nat
  zone_stats :: "(string \<times> stats) list"
  leader_stats :: "(string \<times> leader_stats) list"
  total_records :: nat

definition analytics_overview ::
  "(int \<Rightarrow> string \<Rightarrow> bool) \<Rightarrow> date \<Rightarrow> string option \<Rightarrow> string option \<Rightarrow> string option \<Rightarrow> store
     \<Rightarrow> overview" where
  "analytics_overview id_eq today period_a zone_a leader_a s =
     (let period = period_arg period_a;
          end_date = today;
          start_date = overview_start_date period end_date;
          records = overview_records id_eq today period_a zone_a leader_a s
      in \<lparr>ov_period = period,
          ov_start_date = strftime_ymd start_date,
          ov_end_date = strftime_ymd end_date,
          total_attendance = sum_list (map (\<lambda>(r, l). attendance_of r) records),
          total_visitors = sum_list (map (\<lambda>(r, l). visitors_of r) records),
          total_offering =
            sum_list (map (\<lambda>(r, l). cell_offering r)
                       (filter (\<lambda>(r, l). service_type r = ''cell'') records)),
          total_decisions =
            sum_list (map (\<lambda>(r, l). cell_decisions r)
                       (filter (\<lambda>(r, l). service_type r = ''cell'') records)),
          sunday_services = length (filter (\<lambda>(r, l). service_type r = ''sunday'') records),
          cell_meetings = length (filter (\<lambda>(r, l). service_type r = ''cell'') records),
          zone_stats =
            fold (\<lambda>(r, l). dict_update (l_zone l) zero_stats (add_record r)) records [],
          leader_stats =
            fold (\<lambda>(r, l). dict_update (l_name l) (zero_leader_stats (l_zone l)) (add_record r))
              records [],
          total_records = length records\<rparr>)"

text \<open>
  The trends endpoint. The branch on the period also binds \<^verbatim>\<open>group_format\<close>, which the
  loop never reads: the loop tests the period again to choose the key.
\<close>

definition trends_start_date :: "string \<Rightarrow> date \<Rightarrow> date \<times> string" where
  "trends_start_date period end_date =
     (if period = ''week'' then (date_sub_days end_date 7, ''%Y-%m-%d'')
      else if period = ''month'' then (date_sub_days end_date 30, ''%Y-%m-%d'')
      else (date_sub_days end_date 365, ''%Y-%m''))"

definition trends_records ::
  "date \<Rightarrow> string option \<Rightarrow> string option \<Rightarrow> store \<Rightarrow> (service_record \<times> leader) list" where
  "trends_records today period_a zone_a s =
     (let period = period_arg period_a;
          zone_filter = text_arg zone_a;
          end_date = today;
          start_date = fst (trends_start_date period end_date);
          q = filter (\<lambda>(r, l). date_le start_date (service_date r) \<and> date_le (service_date r) end_date)
                (join_leader s);
          q = (if zone_filter \<noteq> [] then filter (\<lambda>(r, l). l_zone l = zone_filter) q else q)
      in q)"

definition date_key :: "string \<Rightarrow> date \<Rightarrow> string" where
  "date_key period d = (if period = ''year'' then strftime_ym d else strftime_ymd d)"

definition analytics_trends ::
  "date \<Rightarrow> string option \<Rightarrow> string option \<Rightarrow> store \<Rightarrow> (string \<times> stats) list" where
  "analytics_trends today period_a zone_a s =
     (let period = period_arg period_a;
          records = trends_records today period_a zone_a s;
          trends =
            fold (\<lambda>(r, l). dict_update (date_key period (service_date r)) zero_stats (add_record r))
              records []
      in sort_key fst trends)"

section \<open>Exceptions\<close>

text \<open>
  A Python exception is a value; a computation that may raise returns \<open>exn + 'a\<close>, and
  \<open>try_bind\<close> runs the next statement unless the previous one raised.
\<close>

datatype exn =
  KeyError string | TypeError | ValueError | AttributeError | JSONDecodeError | IntegrityError

definition try_bind :: "exn + 'a \<Rightarrow> ('a \<Rightarrow> exn + 'b) \<Rightarrow> exn + 'b" where
  "try_bind m f = (case m of Inl e \<Rightarrow> Inl e | Inr x \<Rightarrow> f x)"

text \<open>A loop that builds one result per element and stops at the first exception.\<close>

fun for_each :: "('a \<Rightarrow> exn + 'b) \<Rightarrow> 'a list \<Rightarrow> exn + 'b list" where
  "for_each f [] = Inr []"
| "for_each f (x # xs) =
     (case f x of
        Inl e \<Rightarrow> Inl e
      | Inr y \<Rightarrow> (case for_each f xs of Inl e \<Rightarrow> Inl e | Inr ys \<Rightarrow> Inr (y # ys)))"

section \<open>Parsing dates\<close>

text \<open>
  \<^verbatim>\<open>datetime.strptime(s, "%Y-%m-%d").date()\<close>. The library turns the format into the
  regular expression \<^verbatim>\<open>(\d\d\d\d)-(1[0-2]|0[1-9]|[1-9])-(3[0-1]|[1-2]\d|0[1-9]|[1-9]| [1-9])\<close>,
  matches it at the start of the text, refuses text left over, and builds the date, which
  checks the calendar. A \<open>char\<close> is a byte, so the digits are the ASCII digits.
\<close>

definition digit_of :: "char \<Rightarrow> nat option" where
  "digit_of c =
     map_of [(CHR ''0'', 0), (CHR ''1'', 1), (CHR ''2'', 2), (CHR ''3'', 3), (CHR ''4'', 4),
             (CHR ''5'', 5), (CHR ''6'', 6), (CHR ''7'', 7), (CHR ''8'', 8), (CHR ''9'', 9)] c"

text \<open>The digit at the head of a text, with the rest.\<close>

definition next_digit :: "string \<Rightarrow> (nat \<times> string) option" where
  "next_digit s =
     (case s of
        [] \<Rightarrow> None
      | c # t \<Rightarrow> (case digit_of c of None \<Rightarrow> None | Some n \<Rightarrow> Some (n, t)))"

definition match_Y :: "string \<Rightarrow> (nat \<times> string) option" where
  "match_Y s =
     (case next_digit s of None \<Rightarrow> None | Some (a, s1) \<Rightarrow>
     (case next_digit s1 of None \<Rightarrow> None | Some (b, s2) \<Rightarrow>
     (case next_digit s2 of None \<Rightarrow> None | Some (c, s3) \<Rightarrow>
     (case next_digit s3 of None \<Rightarrow> None | Some (d, s4) \<Rightarrow>
        Some (1000 * a + 100 * b + 10 * c + d, s4)))))"

definition match_m :: "string \<Rightarrow> (nat \<times> string) option" where
  "match_m s =
     (case next_digit s of
        None \<Rightarrow> None
      | Some (x, t) \<Rightarrow>
          (case next_digit t of
             Some (y, u) \<Rightarrow>
               if x = 1 \<and> y \<le> 2 then Some (10 + y, u)
               else if x = 0 \<and> 1 \<le> y then Some (y, u)
               else if 1 \<le> x then Some (x, t)
               else None
           | None \<Rightarrow> if 1 \<le> x then Some (x, t) else None))"

definition match_d :: "string \<Rightarrow> (nat \<times> string) option" where
  "match_d s =
     (case next_digit s of
        Some (x, t) \<Rightarrow>
          (case next_digit t of
             Some (y, u) \<Rightarrow>
               if x = 3 \<and> y \<le> 1 then Some (30 + y, u)
               else if x = 1 \<or> x = 2 then Some (10 * x + y, u)
               else if x = 0 \<and> 1 \<le> y then Some (y, u)
               else if 1 \<le> x then Some (x, t)
               else None
           | None \<Rightarrow> if 1 \<le> x then Some (x, t) else None)
      | None \<Rightarrow>
          (case s of
             [] \<Rightarrow> None
           | c # t \<Rightarrow>
               if c = CHR '' '' then
                 (case next_digit t of
                    Some (y, u) \<Rightarrow> if 1 \<le> y then Some (y, u) else None
                  | None \<Rightarrow> None)
               else None))"

definition match_dash :: "string \<Rightarrow> string option" where
  "match_dash s = (case s of [] \<Rightarrow> None | c # t \<Rightarrow> if c = CHR ''-'' then Some t else None)"

definition strptime_ymd :: "string \<Rightarrow> date option" where
  "strptime_ymd s =
     (case match_Y s of None \<Rightarrow> None | Some (y, s1) \<Rightarrow>
     (case match_dash s1 of None \<Rightarrow> None | Some s2 \<Rightarrow>
     (case match_m s2 of None \<Rightarrow> None | Some (m, s3) \<Rightarrow>
     (case match_dash s3 of None \<Rightarrow> None | Some s4 \<Rightarrow>
     (case match_d s4 of None \<Rightarrow> None | Some (d, s5) \<Rightarrow>
        if s5 = [] \<and> valid_date \<lparr>year = y, month = m, day = d\<rparr>
        then Some \<lparr>year = y, month = m, day = d\<rparr>
        else None)))))"

section \<open>CSV export and the list of recent submissions\<close>

text \<open>
  A CSV field before the writer renders it: the integer \<open>0\<close> that the sunday branch
  writes and the float of the offering column are different Python values.
\<close>

datatype csv_value = CInt int | CReal real | CStr string


text \<open>The body of the export loop; formatting an absent timestamp raises.\<close>

definition csv_row :: "service_record \<times> leader \<Rightarrow> exn + csv_value list" where
  "csv_row rl =
     (case rl of (r, l) \<Rightarrow>
        (let attendance = (if service_type r = ''sunday'' then sunday_attendance r
                           else cell_attendance r);
             visitors = (if service_type r = ''sunday'' then sunday_visitors r
                         else cell_visitors r);
             offering = (if service_type r = ''sunday'' then CInt 0
                         else CReal (cell_offering r));
             decisions = (if service_type r = ''sunday'' then 0 else cell_decisions r)
         in case submitted_at r of
              None \<Rightarrow> Inl AttributeError
            | Some t \<Rightarrow>
                Inr [CInt (r_id r), CStr (l_name l), CStr (l_zone l), CStr (service_type r),
                     CStr (strftime_ymd (service_date r)), CInt attendance, CInt visitors,
                     offering, CInt decisions,
                     CStr (case r_notes r of None \<Rightarrow> [] | Some n \<Rightarrow> n),
                     CStr (strftime_ymd_hm t)]))"





text \<open>
  An entry of the list of recent submissions, built from a row of the query (the twenty
  most recent records, an ordering that is the database's).
\<close>

record submission =
  sub_id :: int
  sub_leader_name :: string
  sub_leader_zone :: string
  sub_service_type :: string
  sub_service_date :: string
  sub_attendance :: int
  sub_visitors :: int
  sub_offering :: real
  sub_decisions :: int
  sub_notes :: "string option"
  sub_submitted_at :: string

definition submission_entry :: "service_record \<times> leader \<Rightarrow> exn + submission" where
  "submission_entry rl =
     (case rl of (r, l) \<Rightarrow>
        (case submitted_at r of
           None \<Rightarrow> Inl AttributeError
         | Some t \<Rightarrow>
             Inr \<lparr>sub_id = r_id r,
                  sub_leader_name = l_name l,
                  sub_leader_zone = l_zone l,
                  sub_service_type = service_type r,
                  sub_service_date = strftime_ymd (service_date r),
                  sub_attendance = (if service_type r = ''sunday'' then sunday_attendance r
                                    else cell_attendance r),
                  sub_visitors = (if service_type r = ''sunday'' then sunday_visitors r
                                  else cell_visitors r),
                  sub_offering = (if service_type r = ''cell'' then cell_offering r else 0),
                  sub_decisions = (if service_type r = ''cell'' then cell_decisions r else 0),
                  sub_notes = r_notes r,
                  sub_submitted_at = strftime_ymd_hm t\<rparr>))"

definition recent_submissions :: "(service_record \<times> leader) list \<Rightarrow> exn + submission list" where
  "recent_submissions records = for_each submission_entry records"

section \<open>JSON input and pending rows\<close>

text \<open>
  A member of a JSON object as the handlers read it: the key is missing, its value is
  \<^verbatim>\<open>null\<close>, or it holds a value of the column's type. \<open>getitem\<close> is the subscript
  \<^verbatim>\<open>data[k]\<close>, \<open>get_default\<close> is \<^verbatim>\<open>data.get(k, default)\<close> and \<open>get\<close> is \<^verbatim>\<open>data.get(k)\<close>;
  Python's \<^verbatim>\<open>None\<close> is \<open>None\<close>.
\<close>

datatype 'a field = Absent | Null | Val 'a

definition getitem :: "string \<Rightarrow> 'a field \<Rightarrow> exn + 'a option" where
  "getitem k f =
     (case f of Absent \<Rightarrow> Inl (KeyError k) | Null \<Rightarrow> Inr None | Val v \<Rightarrow> Inr (Some v))"

definition get_default :: "'a field \<Rightarrow> 'a \<Rightarrow> 'a option" where
  "get_default f d = (case f of Absent \<Rightarrow> Some d | Null \<Rightarrow> None | Val v \<Rightarrow> Some v)"

definition get :: "'a field \<Rightarrow> 'a option" where
  "get f = (case f of Absent \<Rightarrow> None | Null \<Rightarrow> None | Val v \<Rightarrow> Some v)"

text \<open>The JSON encoding of an optional value.\<close>

definition of_option :: "'a option \<Rightarrow> 'a field" where
  "of_option x = (case x of None \<Rightarrow> Null | Some v \<Rightarrow> Val v)"

text \<open>
  The objects of the two mapped classes before they are flushed: every attribute may be
  \<^verbatim>\<open>None\<close>. The constructors follow the two \<^verbatim>\<open>__init__\<close> methods, which assign the
  arguments they are given and leave the key and the timestamps unset.
\<close>

record leader_obj =
  lo_id :: "int option"
  lo_name :: "string option"
  lo_zone :: "string option"
  lo_cell_day :: "string option"
  lo_contact_number :: "string option"
  lo_email :: "string option"
  lo_address :: "string option"
  lo_profile_picture :: "string option"
  lo_is_active :: "bool option"
  lo_created_at :: "datetime option"
  lo_updated_at :: "datetime option"

record service_record_obj =
  ro_id :: "int option"
  ro_leader_id :: "int option"
  ro_service_type :: "string option"
  ro_service_date :: date
  ro_sunday_attendance :: "int option"
  ro_sunday_visitors :: "int option"
  ro_cell_attendance :: "int option"
  ro_cell_visitors :: "int option"
  ro_cell_offering :: "real option"
  ro_cell_decisions :: "int option"
  ro_notes :: "string option"
  ro_submitted_at :: "datetime option"

definition new_leader ::
  "string option \<Rightarrow> string option \<Rightarrow> string option \<Rightarrow> string option \<Rightarrow> string option
     \<Rightarrow> string option \<Rightarrow> string option \<Rightarrow> bool option \<Rightarrow> leader_obj" where
  "new_leader name zone' cell_day contact_number email address profile_picture is_active =
     \<lparr>lo_id = None, lo_name = name, lo_zone = zone', lo_cell_day = cell_day,
      lo_contact_number = contact_number, lo_email = email, lo_address = address,
      lo_profile_picture = profile_picture, lo_is_active = is_active,
      lo_created_at = None, lo_updated_at = None\<rparr>"

definition new_service_record ::
  "int option \<Rightarrow> string option \<Rightarrow> date \<Rightarrow> int option \<Rightarrow> int option \<Rightarrow> int option
     \<Rightarrow> int option \<Rightarrow> real option \<Rightarrow> int option \<Rightarrow> string option \<Rightarrow> service_record_obj" where
  "new_service_record lid ty d s_att s_vis c_att c_vis c_off c_dec nts =
     \<lparr>ro_id = None, ro_leader_id = lid, ro_service_type = ty, ro_service_date = d,
      ro_sunday_attendance = s_att, ro_sunday_visitors = s_vis,
      ro_cell_attendance = c_att, ro_cell_visitors = c_vis, ro_cell_offering = c_off,
      ro_cell_decisions = c_dec, ro_notes = nts, ro_submitted_at = None\<rparr>"

subsection \<open>INSERT\<close>

text \<open>
  The flush of one pending object. The unit of work leaves an attribute that is
  \<^verbatim>\<open>None\<close> out of the INSERT, so a column with a \<^verbatim>\<open>default\<close> stores its default (the
  clock reading \<open>now\<close> for the timestamps) and the key is chosen by the database, one
  above the largest key of the table or 1 for an empty table. A \<^verbatim>\<open>None\<close> in a column
  that is not nullable and a key already in the table are integrity errors. Foreign
  keys are not enforced, as in the SQLite database the program uses by default.
\<close>

definition next_id :: "int list \<Rightarrow> int" where
  "next_id ids = (case ids of [] \<Rightarrow> 1 | i # rest \<Rightarrow> fold max rest i + 1)"

definition or_default :: "'a option \<Rightarrow> 'a \<Rightarrow> 'a" where
  "or_default x d = (case x of None \<Rightarrow> d | Some v \<Rightarrow> v)"

definition insert_leader :: "datetime \<Rightarrow> leader_obj \<Rightarrow> leader list \<Rightarrow> exn + leader list" where
  "insert_leader now obj tbl =
     (case lo_name obj of None \<Rightarrow> Inl IntegrityError | Some name \<Rightarrow>
     (case lo_zone obj of None \<Rightarrow> Inl IntegrityError | Some zone' \<Rightarrow>
        (let key = or_default (lo_id obj) (next_id (map l_id tbl))
         in if key \<in> set (map l_id tbl) then Inl IntegrityError
            else Inr (tbl @
              [\<lparr>l_id = key, l_name = name, l_zone = zone',
                l_cell_day = Some (or_default (lo_cell_day obj) ''Thursday''),
                l_contact_number = lo_contact_number obj,
                l_email = lo_email obj,
                l_address = lo_address obj,
                l_profile_picture = lo_profile_picture obj,
                l_is_active = Some (or_default (lo_is_active obj) True),
                l_created_at = Some (or_default (lo_created_at obj) now),
                l_updated_at = Some (or_default (lo_updated_at obj) now)\<rparr>]))))"

definition insert_service_record ::
  "datetime \<Rightarrow> service_record_obj \<Rightarrow> service_record list \<Rightarrow> exn + service_record list" where
  "insert_service_record now obj tbl =
     (case ro_leader_id obj of None \<Rightarrow> Inl IntegrityError | Some lid \<Rightarrow>
     (case ro_service_type obj of None \<Rightarrow> Inl IntegrityError | Some ty \<Rightarrow>
        (let key = or_default (ro_id obj) (next_id (map r_id tbl))
         in if key \<in> set (map r_id tbl) then Inl IntegrityError
            else Inr (tbl @
              [\<lparr>r_id = key, leader_id = lid, service_type = ty,
                service_date = ro_service_date obj,
                sunday_attendance = or_default (ro_sunday_attendance obj) 0,
                sunday_visitors = or_default (ro_sunday_visitors obj) 0,
                cell_attendance = or_default (ro_cell_attendance obj) 0,
                cell_visitors = or_default (ro_cell_visitors obj) 0,
                cell_offering = or_default (ro_cell_offering obj) 0,
                cell_decisions = or_default (ro_cell_decisions obj) 0,
                r_notes = ro_notes obj,
                submitted_at = Some (or_default (ro_submitted_at obj) now)\<rparr>]))))"

text \<open>The pending objects of one class are inserted in the order they were added.\<close>

fun insert_all :: "('o \<Rightarrow> 'r list \<Rightarrow> exn + 'r list) \<Rightarrow> 'o list \<Rightarrow> 'r list \<Rightarrow> exn + 'r list" where
  "insert_all ins [] tbl = Inr tbl"
| "insert_all ins (obj # objs) tbl =
     (case ins obj tbl of Inl e \<Rightarrow> Inl e | Inr tbl' \<Rightarrow> insert_all ins objs tbl')"

section \<open>Submitting a report\<close>

record submit_data =
  d_leader_id :: "int field"
  d_service_type :: "string field"
  d_service_date :: "string field"
  d_notes :: "string field"
  d_sunday_attendance :: "int field"
  d_sunday_visitors :: "int field"
  d_cell_attendance :: "int field"
  d_cell_visitors :: "int field"
  d_cell_offering :: "real field"
  d_cell_decisions :: "int field"

text \<open>\<^verbatim>\<open>datetime.strptime(v, "%Y-%m-%d").date()\<close> of a value read from JSON.\<close>

definition parse_date :: "string option \<Rightarrow> exn + date" where
  "parse_date v =
     (case v of
        None \<Rightarrow> Inl TypeError
      | Some t \<Rightarrow> (case strptime_ymd t of None \<Rightarrow> Inl ValueError | Some d \<Rightarrow> Inr d))"

text \<open>The branch on the service type, which fills the metrics of the one kind.\<close>

definition submit_metrics ::
  "submit_data \<Rightarrow> string option \<Rightarrow> service_record_obj \<Rightarrow> exn + service_record_obj" where
  "submit_metrics data ty record =
     (if ty = Some ''sunday'' then
        try_bind (getitem ''sunday_attendance'' (d_sunday_attendance data)) (\<lambda>a.
        Inr (record\<lparr>ro_sunday_attendance := a,
                    ro_sunday_visitors := get_default (d_sunday_visitors data) 0\<rparr>))
      else
        try_bind (getitem ''cell_attendance'' (d_cell_attendance data)) (\<lambda>a.
        Inr (record\<lparr>ro_cell_attendance := a,
                    ro_cell_visitors := get_default (d_cell_visitors data) 0,
                    ro_cell_offering := get_default (d_cell_offering data) 0,
                    ro_cell_decisions := get_default (d_cell_decisions data) 0\<rparr>)))"

text \<open>
  The statements inside the \<^verbatim>\<open>try\<close> of the handler, up to the commit; the result is the
  key of the new row and the new store.
\<close>

definition submit_body ::
  "datetime \<Rightarrow> submit_data \<Rightarrow> store \<Rightarrow> exn + (int \<times> store)" where
  "submit_body now data s =
     try_bind (getitem ''leader_id'' (d_leader_id data)) (\<lambda>lid.
     try_bind (getitem ''service_type'' (d_service_type data)) (\<lambda>ty.
     try_bind (getitem ''service_date'' (d_service_date data)) (\<lambda>ds.
     try_bind (parse_date ds) (\<lambda>d.
     let record = new_service_record lid ty d (Some 0) (Some 0) (Some 0) (Some 0) (Some 0) (Some 0)
                    (get_default (d_notes data) [])
     in try_bind (getitem ''service_type'' (d_service_type data)) (\<lambda>ty'.
        try_bind (submit_metrics data ty' record) (\<lambda>record.
        try_bind (insert_service_record now record (service_records s)) (\<lambda>tbl.
        Inr (r_id (last tbl), s\<lparr>service_records := tbl\<rparr>))))))))"

text \<open>
  The handler: an exception is answered with status 400 after the rollback, which leaves
  the store as it was.
\<close>

definition submit_totals :: "datetime \<Rightarrow> submit_data \<Rightarrow> store \<Rightarrow> (exn + int) \<times> store" where
  "submit_totals now data s =
     (case submit_body now data s of
        Inl e \<Rightarrow> (Inl e, s)
      | Inr (record_id, s') \<Rightarrow> (Inr record_id, s'))"

section \<open>Backup and restore\<close>

text \<open>\<^verbatim>\<open>datetime.isoformat()\<close> of a naive timestamp.\<close>

definition pad6 :: "nat \<Rightarrow> string" where
  "pad6 n =
     [digit_char (n div 100000), digit_char (n div 10000), digit_char (n div 1000),
      digit_char (n div 100), digit_char (n div 10), digit_char n]"

definition isoformat :: "datetime \<Rightarrow> string" where
  "isoformat t =
     date_isoformat (dt_date t) @ ''T'' @ pad2 (hour t) @ '':'' @ pad2 (minute t) @ '':''
       @ pad2 (second t) @ (if microsecond t = 0 then [] else ''.'' @ pad6 (microsecond t))"

text \<open>The entries of the backup document and the document itself.\<close>

record leader_json =
  j_id :: "int field"
  j_name :: "string field"
  j_zone :: "string field"
  j_cell_day :: "string field"
  j_contact_number :: "string field"
  j_email :: "string field"
  j_address :: "string field"
  j_profile_picture :: "string field"
  j_is_active :: "bool field"
  j_created_at :: "string field"
  j_updated_at :: "string field"

record record_json =
  k_id :: "int field"
  k_leader_id :: "int field"
  k_service_type :: "string field"
  k_service_date :: "string field"
  k_sunday_attendance :: "int field"
  k_sunday_visitors :: "int field"
  k_cell_attendance :: "int field"
  k_cell_visitors :: "int field"
  k_cell_offering :: "real field"
  k_cell_decisions :: "int field"
  k_notes :: "string field"
  k_submitted_at :: "string field"

record backup_json =
  b_timestamp :: "string field"
  b_leaders :: "leader_json list field"
  b_service_records :: "record_json list field"

definition leader_to_json :: "leader \<Rightarrow> leader_json" where
  "leader_to_json l =
     \<lparr>j_id = Val (l_id l), j_name = Val (l_name l), j_zone = Val (l_zone l),
      j_cell_day = of_option (l_cell_day l),
      j_contact_number = of_option (l_contact_number l),
      j_email = of_option (l_email l),
      j_address = of_option (l_address l),
      j_profile_picture = of_option (l_profile_picture l),
      j_is_active = of_option (l_is_active l),
      j_created_at = of_option (map_option isoformat (l_created_at l)),
      j_updated_at = of_option (map_option isoformat (l_updated_at l))\<rparr>"

definition record_to_json :: "service_record \<Rightarrow> record_json" where
  "record_to_json r =
     \<lparr>k_id = Val (r_id r), k_leader_id = Val (leader_id r),
      k_service_type = Val (service_type r),
      k_service_date = Val (date_isoformat (service_date r)),
      k_sunday_attendance = Val (sunday_attendance r),
      k_sunday_visitors = Val (sunday_visitors r),
      k_cell_attendance = Val (cell_attendance r),
      k_cell_visitors = Val (cell_visitors r),
      k_cell_offering = Val (cell_offering r),
      k_cell_decisions = Val (cell_decisions r),
      k_notes = of_option (r_notes r),
      k_submitted_at = of_option (map_option isoformat (submitted_at r))\<rparr>"

definition backup_data :: "datetime \<Rightarrow> store \<Rightarrow> backup_json" where
  "backup_data now s =
     \<lparr>b_timestamp = Val (isoformat now),
      b_leaders = Val (map leader_to_json (leaders s)),
      b_service_records = Val (map record_to_json (service_records s))\<rparr>"

text \<open>
  The uploaded file: its name and what \<^verbatim>\<open>json.load\<close> makes of its bytes (a failure, a
  JSON value that is not an object, or a document). \<^verbatim>\<open>datetime.fromisoformat\<close>, whose
  accepted texts differ between versions of the library, is the parameter
  \<open>fromisoformat\<close>; \<open>None\<close> is its \<^verbatim>\<open>ValueError\<close>.
\<close>

datatype upload_content = NotJson | JsonOther | JsonObject backup_json

record upload =
  u_filename :: string
  u_content :: upload_content

definition endswith :: "string \<Rightarrow> string \<Rightarrow> bool" where
  "endswith t suffix =
     (length suffix \<le> length t \<and> drop (length t - length suffix) t = suffix)"

text \<open>
  \<^verbatim>\<open>if entry.get(k): obj.attr = datetime.fromisoformat(entry[k])\<close>: the value of an
  attribute that the constructor left unset.
\<close>

definition read_timestamp ::
  "(string \<Rightarrow> datetime option) \<Rightarrow> string field \<Rightarrow> exn + datetime option" where
  "read_timestamp fromisoformat f =
     (case get f of
        None \<Rightarrow> Inr None
      | Some t \<Rightarrow>
          if t = [] then Inr None
          else (case fromisoformat t of None \<Rightarrow> Inl ValueError | Some ts \<Rightarrow> Inr (Some ts)))"

text \<open>The bodies of the two restore loops, each up to \<^verbatim>\<open>db.session.add\<close>.\<close>

definition restore_leader ::
  "(string \<Rightarrow> datetime option) \<Rightarrow> leader_json \<Rightarrow> exn + leader_obj" where
  "restore_leader fromisoformat leader_data =
     try_bind (getitem ''name'' (j_name leader_data)) (\<lambda>name.
     try_bind (getitem ''zone'' (j_zone leader_data)) (\<lambda>zone'.
     let leader = new_leader name zone'
                    (get_default (j_cell_day leader_data) ''Thursday'')
                    (get_default (j_contact_number leader_data) [])
                    (get_default (j_email leader_data) [])
                    (get_default (j_address leader_data) [])
                    (get (j_profile_picture leader_data))
                    (get_default (j_is_active leader_data) True)
     in try_bind (getitem ''id'' (j_id leader_data)) (\<lambda>i.
        try_bind (read_timestamp fromisoformat (j_created_at leader_data)) (\<lambda>created.
        try_bind (read_timestamp fromisoformat (j_updated_at leader_data)) (\<lambda>updated.
        Inr (leader\<lparr>lo_id := i, lo_created_at := created, lo_updated_at := updated\<rparr>))))))"

definition restore_record ::
  "(string \<Rightarrow> datetime option) \<Rightarrow> record_json \<Rightarrow> exn + service_record_obj" where
  "restore_record fromisoformat record_data =
     try_bind (getitem ''leader_id'' (k_leader_id record_data)) (\<lambda>lid.
     try_bind (getitem ''service_type'' (k_service_type record_data)) (\<lambda>ty.
     try_bind (getitem ''service_date'' (k_service_date record_data)) (\<lambda>ds.
     try_bind (parse_date ds) (\<lambda>d.
     let record = new_service_record lid ty d
                    (get_default (k_sunday_attendance record_data) 0)
                    (get_default (k_sunday_visitors record_data) 0)
                    (get_default (k_cell_attendance record_data) 0)
                    (get_default (k_cell_visitors record_data) 0)
                    (get_default (k_cell_offering record_data) 0)
                    (get_default (k_cell_decisions record_data) 0)
                    (get_default (k_notes record_data) [])
     in try_bind (getitem ''id'' (k_id record_data)) (\<lambda>i.
        try_bind (read_timestamp fromisoformat (k_submitted_at record_data)) (\<lambda>submitted.
        Inr (record\<lparr>ro_id := i, ro_submitted_at := submitted\<rparr>)))))))"

text \<open>\<^verbatim>\<open>for entry in data.get(k, [])\<close>: iterating \<^verbatim>\<open>None\<close> raises.\<close>

definition entries_of :: "'a list field \<Rightarrow> exn + 'a list" where
  "entries_of f = (case get_default f [] of None \<Rightarrow> Inl TypeError | Some xs \<Rightarrow> Inr xs)"

text \<open>
  The statements inside the \<^verbatim>\<open>try\<close> of the handler for a file whose name ends in
  \<^verbatim>\<open>.json\<close>: load the document, delete all records and then all leaders, add the
  leaders and then the records of the document, and commit, which inserts the pending
  leaders before the pending records.
\<close>

definition restore_body ::
  "(string \<Rightarrow> datetime option) \<Rightarrow> datetime \<Rightarrow> upload_content \<Rightarrow> store \<Rightarrow> exn + store" where
  "restore_body fromisoformat now content s =
     try_bind (case content of
                 NotJson \<Rightarrow> Inl JSONDecodeError
               | JsonOther \<Rightarrow> Inr None
               | JsonObject doc \<Rightarrow> Inr (Some doc)) (\<lambda>data.
     let s1 = s\<lparr>service_records := []\<rparr>;
         s2 = s1\<lparr>leaders := []\<rparr>
     in try_bind (case data of None \<Rightarrow> Inl AttributeError | Some doc \<Rightarrow> Inr doc) (\<lambda>doc.
        try_bind (entries_of (b_leaders doc)) (\<lambda>leader_entries.
        try_bind (for_each (restore_leader fromisoformat) leader_entries) (\<lambda>new_leaders.
        try_bind (entries_of (b_service_records doc)) (\<lambda>record_entries.
        try_bind (for_each (restore_record fromisoformat) record_entries) (\<lambda>new_records.
        try_bind (insert_all (insert_leader now) new_leaders (leaders s2)) (\<lambda>leader_table.
        try_bind (insert_all (insert_service_record now) new_records (service_records s2))
          (\<lambda>record_table.
        Inr (s2\<lparr>leaders := leader_table, service_records := record_table\<rparr>)))))))))"

text \<open>
  The handler. The two early answers and the answer for another file name leave the
  session untouched; an exception is answered after the rollback, which leaves the store
  as it was.
\<close>

datatype restore_failure =
  NoFileProvided | NoFileSelected | InvalidFileFormat | RestoreFailed exn

definition restore_data ::
  "(string \<Rightarrow> datetime option) \<Rightarrow> datetime \<Rightarrow> upload option \<Rightarrow> store
     \<Rightarrow> (restore_failure + unit) \<times> store" where
  "restore_data fromisoformat now file_field s =
     (case file_field of
        None \<Rightarrow> (Inl NoFileProvided, s)
      | Some file \<Rightarrow>
          if u_filename file = [] then (Inl NoFileSelected, s)
          else if endswith (u_filename file) ''.json'' then
            (case restore_body fromisoformat now (u_content file) s of
               Inl e \<Rightarrow> (Inl (RestoreFailed e), s)
             | Inr s' \<Rightarrow> (Inr (), s'))
          else (Inl InvalidFileFormat, s))"

subsection \<open>Stores and uploads that the statements about restore speak of\<close>

text \<open>
  A timestamp is \<open>dated\<close> when it is set and \<open>fromisoformat\<close> reads its ISO text back,
  the inverse property the library documents. A leader is complete when the columns that
  carry a default hold a value; a record is complete when its date is a calendar date and
  its submission time is dated. A store is reproducible when its keys are distinct, as
  the primary keys of a table are, and its rows are complete.
\<close>

definition dated :: "(string \<Rightarrow> datetime option) \<Rightarrow> datetime option \<Rightarrow> bool" where
  "dated fromisoformat t =
     (case t of None \<Rightarrow> False | Some ts \<Rightarrow> fromisoformat (isoformat ts) = Some ts)"

definition complete_leader :: "(string \<Rightarrow> datetime option) \<Rightarrow> leader \<Rightarrow> bool" where
  "complete_leader fromisoformat l =
     (l_cell_day l \<noteq> None \<and> l_is_active l \<noteq> None
      \<and> dated fromisoformat (l_created_at l) \<and> dated fromisoformat (l_updated_at l))"

definition complete_record :: "(string \<Rightarrow> datetime option) \<Rightarrow> service_record \<Rightarrow> bool" where
  "complete_record fromisoformat r =
     (valid_date (service_date r) \<and> dated fromisoformat (submitted_at r))"

definition reproducible :: "(string \<Rightarrow> datetime option) \<Rightarrow> store \<Rightarrow> bool" where
  "reproducible fromisoformat s =
     (distinct (map l_id (leaders s)) \<and> distinct (map r_id (service_records s))
      \<and> list_all (complete_leader fromisoformat) (leaders s)
      \<and> list_all (complete_record fromisoformat) (service_records s))"

text \<open>
  An entry lacks a required key when one of the keys that the loop reads by subscript is
  missing. An upload is rejected when its name does not end in \<^verbatim>\<open>.json\<close>, its bytes are
  not JSON, or an entry of its document lacks a required key.
\<close>

definition leader_lacks_key :: "leader_json \<Rightarrow> bool" where
  "leader_lacks_key e = (j_name e = Absent \<or> j_zone e = Absent \<or> j_id e = Absent)"

definition record_lacks_key :: "record_json \<Rightarrow> bool" where
  "record_lacks_key e =
     (k_leader_id e = Absent \<or> k_service_type e = Absent \<or> k_service_date e = Absent
      \<or> k_id e = Absent)"

definition listed :: "'a list field \<Rightarrow> 'a list" where
  "listed f = (case f of Val xs \<Rightarrow> xs | _ \<Rightarrow> [])"

definition rejected :: "upload \<Rightarrow> bool" where
  "rejected file =
     ((case u_content file of
         NotJson \<Rightarrow> True
       | JsonOther \<Rightarrow> False
       | JsonObject doc \<Rightarrow>
           list_ex leader_lacks_key (listed (b_leaders doc))
           \<or> list_ex record_lacks_key (listed (b_service_records doc)))
      \<or> \<not> endswith (u_filename file) ''.json'')"

section \<open>Example data\<close>

text \<open>
  The scenario of the specification: one leader of zone Chestnut and one cell report of
  4 January 2024, at a time when the table of leaders holds no other row.
\<close>

definition ex_time :: datetime where
  "ex_time = \<lparr>dt_date = \<lparr>year = 2024, month = 1, day = 4\<rparr>, hour = 18, minute = 30, second = 5,
               microsecond = 0\<rparr>"

definition ex_leader :: leader where
  "ex_leader =
     \<lparr>l_id = 1, l_name = ''Leader 1'', l_zone = ''Chestnut'', l_cell_day = Some ''Thursday'',
      l_contact_number = Some [], l_email = Some [], l_address = Some [],
      l_profile_picture = None, l_is_active = Some True,
      l_created_at = Some ex_time, l_updated_at = Some ex_time\<rparr>"

definition ex_record :: service_record where
  "ex_record =
     \<lparr>r_id = 1, leader_id = 1, service_type = ''cell'',
      service_date = \<lparr>year = 2024, month = 1, day = 4\<rparr>,
      sunday_attendance = 0, sunday_visitors = 0,
      cell_attendance = 20, cell_visitors = 3, cell_offering = 301 / 2, cell_decisions = 2,
      r_notes = Some [], submitted_at = Some ex_time\<rparr>"

definition ex_store :: store where
  "ex_store = \<lparr>leaders = [ex_leader], service_records = [ex_record]\<rparr>"

text \<open>A Sunday report whose cell columns are not at their defaults.\<close>

definition ex_sunday_record :: service_record where
  "ex_sunday_record =
     \<lparr>r_id = 2, leader_id = 1, service_type = ''sunday'',
      service_date = \<lparr>year = 2024, month = 1, day = 7\<rparr>,
      sunday_attendance = 45, sunday_visitors = 4,
      cell_attendance = 0, cell_visitors = 0, cell_offering = 75, cell_decisions = 3,
      r_notes = Some ''Guest speaker'', submitted_at = Some ex_time\<rparr>"

text \<open>The submission of the scenario, and a Sunday submission without its attendance.\<close>

definition ex_submit :: submit_data where
  "ex_submit =
     \<lparr>d_leader_id = Val 1, d_service_type = Val ''cell'', d_service_date = Val ''2024-01-04'',
      d_notes = Absent, d_sunday_attendance = Absent, d_sunday_visitors = Absent,
      d_cell_attendance = Val 20, d_cell_visitors = Val 3, d_cell_offering = Val (301 / 2),
      d_cell_decisions = Val 2\<rparr>"


text \<open>
  A reader of ISO texts that knows the timestamp of the examples; the clock reading of
  a later restore; uploads of the backup of the example store under two names, of bytes
  that are not JSON, and of a document whose leader entry has no name; and a store whose
  leader has no creation time.
\<close>

definition ex_fromisoformat :: "string \<Rightarrow> datetime option" where
  "ex_fromisoformat t = (if t = ''2024-01-04T18:30:05'' then Some ex_time else None)"

definition ex_restore_time :: datetime where
  "ex_restore_time = \<lparr>dt_date = \<lparr>year = 2024, month = 2, day = 1\<rparr>, hour = 9, minute = 0,
                       second = 0, microsecond = 0\<rparr>"

definition ex_upload :: upload where
  "ex_upload = \<lparr>u_filename = ''church_backup.json'',
                u_content = JsonObject (backup_data ex_restore_time ex_store)\<rparr>"

definition ex_upload_txt :: upload where
  "ex_upload_txt = \<lparr>u_filename = ''church_backup.txt'',
                    u_content = JsonObject (backup_data ex_restore_time ex_store)\<rparr>"

definition ex_upload_garbled :: upload where
  "ex_upload_garbled = \<lparr>u_filename = ''church_backup.json'', u_content = NotJson\<rparr>"

definition ex_upload_nameless :: upload where
  "ex_upload_nameless =
     \<lparr>u_filename = ''church_backup.json'',
      u_content = JsonObject
        \<lparr>b_timestamp = Absent,
         b_leaders = Val [(leader_to_json ex_leader)\<lparr>j_name := Absent\<rparr>],
         b_service_records = Val [record_to_json ex_record]\<rparr>\<rparr>"

definition ex_store_undated :: store where
  "ex_store_undated =
     \<lparr>leaders = [ex_leader\<lparr>l_created_at := None\<rparr>], service_records = [ex_record]\<rparr>"

definition empty_store :: store where
  "empty_store = \<lparr>leaders = [], service_records = []\<rparr>"

section \<open>Auxiliary facts\<close>

subsection \<open>Evaluation\<close>

lemmas date_eval = date_sub_days_def toordinal_def fromordinal_def days_before_year_def
  days_before_month_def is_leap_def date_le_def Let_def
lemmas fmt_eval = strftime_ymd_def strftime_ym_def strftime_Y_def date_isoformat_def pad4_def
  pad2_def digit_char_def
lemmas ex_eval = ex_store_def ex_leader_def ex_record_def ex_time_def

lemmas strptime_eval = strptime_ymd_def match_Y_def match_m_def match_d_def match_dash_def
  next_digit_def digit_of_def valid_date_def days_in_month_def is_leap_def

subsection \<open>Reading a formatted date back\<close>

lemma nat_less_10_cases:
  "k < 10 \<Longrightarrow> k = 0 \<or> k = 1 \<or> k = 2 \<or> k = 3 \<or> k = 4 \<or> k = 5 \<or> k = 6 \<or> k = 7 \<or> k = 8 \<or> k = (9::nat)"
  by arith

lemma digit_of_nth: "k < 10 \<Longrightarrow> digit_of (''0123456789'' ! k) = Some k"
  using nat_less_10_cases [of k] by (auto simp: digit_of_def)

lemma digit_of_digit_char: "digit_of (digit_char n) = Some (n mod 10)"
  by (simp add: digit_char_def digit_of_nth)

lemma next_digit_digit_char: "next_digit (digit_char n # t) = Some (n mod 10, t)"
  by (simp add: next_digit_def digit_of_digit_char)

lemma decimal_digits4:
  assumes "y < (10000::nat)"
  shows "1000 * (y div 1000 mod 10) + 100 * (y div 100 mod 10) + 10 * (y div 10 mod 10) + y mod 10 = y"
proof -
  have d0: "y = 10 * (y div 10) + y mod 10" by simp
  have e1: "y div 10 div 10 = y div 100" and e2: "y div 100 div 10 = y div 1000"
    by (simp_all add: div_mult2_eq [symmetric])
  have d1: "y div 10 = 10 * (y div 100) + y div 10 mod 10"
    using mult_div_mod_eq [of 10 "y div 10"] unfolding e1 by linarith
  have d2: "y div 100 = 10 * (y div 1000) + y div 100 mod 10"
    using mult_div_mod_eq [of 10 "y div 100"] unfolding e2 by linarith
  have "y div 1000 < 10" using assms by simp
  then have d3: "y div 1000 mod 10 = y div 1000" by simp
  from d0 d1 d2 d3 show ?thesis by linarith
qed


lemma match_Y_pad4:
  assumes "y < 10000"
  shows "match_Y (pad4 y @ t) = Some (y, t)"
proof -
  have "match_Y (pad4 y @ t)
      = Some (1000 * (y div 1000 mod 10) + 100 * (y div 100 mod 10) + 10 * (y div 10 mod 10) + y mod 10, t)"
    by (simp add: match_Y_def pad4_def next_digit_digit_char)
  then show ?thesis by (simp only: decimal_digits4 [OF assms])
qed


lemma match_m_unfold:
  "match_m (pad2 m @ t) =
     (if m div 10 mod 10 = 1 \<and> m mod 10 \<le> 2 then Some (10 + m mod 10, t)
      else if m div 10 mod 10 = 0 \<and> 1 \<le> m mod 10 then Some (m mod 10, t)
      else if 1 \<le> m div 10 mod 10 then Some (m div 10 mod 10, digit_char m # t)
      else None)"
  by (simp add: match_m_def pad2_def next_digit_digit_char)

lemma match_m_pad2:
  assumes "1 \<le> m" and "m \<le> 12"
  shows "match_m (pad2 m @ t) = Some (m, t)"
proof (cases "m < 10")
  case True
  then have "m div 10 = 0" and "m mod 10 = m" by simp_all
  then show ?thesis using assms by (simp add: match_m_unfold)
next
  case False
  then obtain k where k: "m = 10 + k" using le_Suc_ex [of 10 m] by auto
  with assms have "k \<le> 2" by simp
  then have "m div 10 = 1" and "m mod 10 = k" using k by simp_all
  then show ?thesis using k \<open>k \<le> 2\<close> by (simp add: match_m_unfold)
qed


lemma match_d_unfold:
  "match_d (pad2 d) =
     (if d div 10 mod 10 = 3 \<and> d mod 10 \<le> 1 then Some (30 + d mod 10, [])
      else if d div 10 mod 10 = 1 \<or> d div 10 mod 10 = 2
           then Some (10 * (d div 10 mod 10) + d mod 10, [])
      else if d div 10 mod 10 = 0 \<and> 1 \<le> d mod 10 then Some (d mod 10, [])
      else if 1 \<le> d div 10 mod 10 then Some (d div 10 mod 10, [digit_char d])
      else None)"
  by (simp add: match_d_def pad2_def next_digit_digit_char)

lemma two_digits:
  assumes "d = 10 * q + r" and "r < 10"
  shows "d div 10 = q" and "d mod 10 = (r::nat)"
  using assms by simp_all

lemma match_d_pad2:
  assumes "1 \<le> d" and "d \<le> 31"
  shows "match_d (pad2 d) = Some (d, [])"
proof -
  define q r where "q = d div 10" and "r = d mod 10"
  have d: "d = 10 * q + r" and r: "r < 10" by (simp_all add: q_def r_def)
  have q: "q \<le> 3" using assms(2) d by simp
  then have qm: "q mod 10 = q" by simp
  have u: "match_d (pad2 d) =
     (if q = 3 \<and> r \<le> 1 then Some (30 + r, [])
      else if q = 1 \<or> q = 2 then Some (10 * q + r, [])
      else if q = 0 \<and> 1 \<le> r then Some (r, [])
      else if 1 \<le> q then Some (q, [digit_char d])
      else None)"
    unfolding match_d_unfold q_def [symmetric] r_def [symmetric] qm ..
  from q have "q = 0 \<or> q = 1 \<or> q = 2 \<or> q = 3" by arith
  then have "match_d (pad2 d) = Some (10 * q + r, [])"
  proof (elim disjE)
    assume q0: "q = 0"
    then have "1 \<le> r" using d assms(1) by simp
    with q0 show ?thesis unfolding u by simp
  next
    assume "q = 1"
    then show ?thesis unfolding u by simp
  next
    assume "q = 2"
    then show ?thesis unfolding u by simp
  next
    assume q3: "q = 3"
    then have "r \<le> 1" using d assms(2) by simp
    with q3 show ?thesis unfolding u by simp
  qed
  then show ?thesis unfolding d [symmetric] .
qed

lemma days_in_month_le: "days_in_month y m \<le> 31" if "m \<le> 12"
proof -
  have "list_all (\<lambda>x. x \<le> 31) [0, 31, 28, 31, 30, 31, 30, 31, 31, 30, 31, 30, 31::nat]"
    by simp
  then have "[0, 31, 28, 31, 30, 31, 30, 31, 31, 30, 31, 30, 31::nat] ! m \<le> 31"
    using that unfolding list_all_length by simp
  then show ?thesis by (simp add: days_in_month_def)
qed

lemma strptime_isoformat:
  assumes "valid_date d"
  shows "strptime_ymd (date_isoformat d) = Some d"
proof -
  from assms have y: "year d < 10000" and m: "1 \<le> month d" "month d \<le> 12"
    and dd: "1 \<le> day d" "day d \<le> days_in_month (year d) (month d)"
    by (simp_all add: valid_date_def)
  from dd(2) days_in_month_le [OF m(2)] have d31: "day d \<le> 31" by (rule order_trans)
  have 1: "match_Y (pad4 (year d) @ CHR ''-'' # pad2 (month d) @ CHR ''-'' # pad2 (day d))
             = Some (year d, CHR ''-'' # pad2 (month d) @ CHR ''-'' # pad2 (day d))"
    by (rule match_Y_pad4 [OF y])
  have 2: "match_m (pad2 (month d) @ CHR ''-'' # pad2 (day d))
             = Some (month d, CHR ''-'' # pad2 (day d))"
    by (rule match_m_pad2 [OF m])
  have 3: "match_d (pad2 (day d)) = Some (day d, [])"
    by (rule match_d_pad2 [OF dd(1) d31])
  have "strptime_ymd (pad4 (year d) @ CHR ''-'' # pad2 (month d) @ CHR ''-'' # pad2 (day d))
          = Some \<lparr>year = year d, month = month d, day = day d\<rparr>"
    using assms by (simp add: strptime_ymd_def 1 2 3 match_dash_def valid_date_def)
  then show ?thesis by (simp add: date_isoformat_def)
qed

subsection \<open>Sums over the grouping dictionaries\<close>

lemma sum_dict_update:
  fixes g :: "'v \<Rightarrow> 'a::comm_monoid_add"
  assumes "\<And>v. g (f v) = g v + c" and "g init = 0"
  shows "sum_list (map (\<lambda>(k, v). g v) (dict_update k init f d)) = sum_list (map (\<lambda>(k, v). g v) d) + c"
  using assms by (induction d) (auto simp: ac_simps)





lemma add_record_simps:
  "attendance (add_record r st) = attendance st + attendance_of r"
  "visitors (add_record r st) = visitors st + visitors_of r"
  "offering (add_record r st) = offering st + offering_of r"
  "decisions (add_record r st) = decisions st + decisions_of r"
  "services (add_record r st) = services st + 1"
  by (simp_all add: add_record_def)

lemma zero_stats_simps:
  "attendance zero_stats = 0" "visitors zero_stats = 0" "offering zero_stats = 0"
  "decisions zero_stats = 0" "services zero_stats = 0"
  by (simp_all add: zero_stats_def)

lemma sum_fold_acc:
  fixes g :: "stats \<Rightarrow> 'a::comm_monoid_add"
  assumes "\<And>r v. g (add_record r v) = g v + h r" and "g zero_stats = 0"
  shows "sum_list (map (\<lambda>(k, v). g v)
            (fold (\<lambda>(r, l). dict_update (key r l) zero_stats (add_record r)) rs d))
           = sum_list (map (\<lambda>(k, v). g v) d) + sum_list (map (\<lambda>(r, l). h r) rs)"
proof (induction rs arbitrary: d)
  case Nil
  then show ?case by simp
next
  case (Cons x rs)
  obtain r l where x: "x = (r, l)" by (cases x)
  have "sum_list (map (\<lambda>(k, v). g v) (dict_update (key r l) zero_stats (add_record r) d))
          = sum_list (map (\<lambda>(k, v). g v) d) + h r"
    using assms by (intro sum_dict_update) simp_all
  with Cons x show ?case by (simp add: ac_simps)
qed

lemma sum_zone_fold:
  fixes g :: "stats \<Rightarrow> 'a::comm_monoid_add"
  assumes "\<And>r v. g (add_record r v) = g v + h r" and "g zero_stats = 0"
  shows "sum_list (map (\<lambda>(k, v). g v)
            (fold (\<lambda>(r, l). dict_update (key r l) zero_stats (add_record r)) rs []))
           = sum_list (map (\<lambda>(r, l). h r) rs)"
  using sum_fold_acc [OF assms, where d = "[]"] by simp

lemma sum_const_one: "sum_list (map (\<lambda>(r, l). Suc 0) rs) = length rs"
  by (induction rs) auto


subsection \<open>The export loop\<close>


subsection \<open>Keys and the submission handler\<close>




lemma insert_service_record_not_null:
  "ro_leader_id obj = None \<or> ro_service_type obj = None
     \<Longrightarrow> insert_service_record now obj tbl = Inl IntegrityError"
  by (auto simp: insert_service_record_def split: option.splits)




lemma submit_totals_scenario:
  "submit_totals ex_time ex_submit \<lparr>leaders = [ex_leader], service_records = []\<rparr>
     = (Inr 1, ex_store)"
  by (simp add: ex_submit_def submit_totals_def submit_body_def submit_metrics_def
        try_bind_def getitem_def get_default_def parse_date_def strptime_eval
        new_service_record_def insert_service_record_def or_default_def next_id_def
        ex_store_def ex_record_def)

subsection \<open>Restore\<close>

lemmas restore_eval = restore_data_def restore_body_def restore_leader_def restore_record_def
  entries_of_def read_timestamp_def endswith_def try_bind_def getitem_def get_default_def
  get_def of_option_def new_leader_def new_service_record_def insert_leader_def
  insert_service_record_def or_default_def next_id_def parse_date_def backup_data_def
  leader_to_json_def record_to_json_def isoformat_def

lemma try_bind_Inr_iff: "try_bind m f = Inr y \<longleftrightarrow> (\<exists>x. m = Inr x \<and> f x = Inr y)"
  by (cases m) (simp_all add: try_bind_def)

lemma try_bind_Inr: "try_bind (Inr x) f = f x"
  by (simp add: try_bind_def)

lemma for_each_Inr_all:
  "for_each f xs = Inr ys \<Longrightarrow> x \<in> set xs \<Longrightarrow> \<exists>y. f x = Inr y"
  by (induction xs arbitrary: ys) (auto split: sum.splits)

lemma restore_leader_needs_keys:
  "restore_leader fromiso e = Inr obj \<Longrightarrow> \<not> leader_lacks_key e"
  by (auto simp: restore_leader_def try_bind_Inr_iff getitem_def leader_lacks_key_def Let_def)

lemma restore_record_needs_keys:
  "restore_record fromiso e = Inr obj \<Longrightarrow> \<not> record_lacks_key e"
  by (auto simp: restore_record_def try_bind_Inr_iff getitem_def record_lacks_key_def Let_def)

lemma entries_of_listed: "entries_of f = Inr xs \<Longrightarrow> listed f = xs \<or> f = Absent"
  by (cases f) (simp_all add: entries_of_def get_default_def listed_def)

lemma listed_Absent: "listed Absent = []"
  by (simp add: listed_def)

lemma restore_body_rejects:
  assumes "restore_body fromiso now content s = Inr s'"
  shows "content \<noteq> NotJson"
    and "content = JsonObject doc \<Longrightarrow> \<not> list_ex leader_lacks_key (listed (b_leaders doc))"
    and "content = JsonObject doc \<Longrightarrow> \<not> list_ex record_lacks_key (listed (b_service_records doc))"
proof -
  show "content \<noteq> NotJson"
    using assms by (auto simp: restore_body_def try_bind_def)
next
  assume c: "content = JsonObject doc"
  from assms c obtain ls objs where ls: "entries_of (b_leaders doc) = Inr ls"
    and objs: "for_each (restore_leader fromiso) ls = Inr objs"
    by (auto simp: restore_body_def try_bind_Inr_iff Let_def)
  have "\<not> list_ex leader_lacks_key ls"
    using for_each_Inr_all [OF objs] restore_leader_needs_keys
    by (fastforce simp: list_ex_iff)
  with entries_of_listed [OF ls] show "\<not> list_ex leader_lacks_key (listed (b_leaders doc))"
    by (auto simp: listed_Absent)
next
  assume c: "content = JsonObject doc"
  from assms c obtain rs objs where rs: "entries_of (b_service_records doc) = Inr rs"
    and objs: "for_each (restore_record fromiso) rs = Inr objs"
    by (auto simp: restore_body_def try_bind_Inr_iff Let_def)
  have "\<not> list_ex record_lacks_key rs"
    using for_each_Inr_all [OF objs] restore_record_needs_keys
    by (fastforce simp: list_ex_iff)
  with entries_of_listed [OF rs] show "\<not> list_ex record_lacks_key (listed (b_service_records doc))"
    by (auto simp: listed_Absent)
qed

subsection \<open>Backup followed by restore\<close>

lemma isoformat_nonempty: "isoformat t \<noteq> []"
  by (simp add: isoformat_def date_isoformat_def pad4_def)

lemma read_timestamp_dated:
  "dated fromiso t \<Longrightarrow> read_timestamp fromiso (of_option (map_option isoformat t)) = Inr t"
  by (cases t) (simp_all add: dated_def read_timestamp_def of_option_def get_def isoformat_nonempty)

lemma get_default_of_option: "get_default (of_option x) d = x"
  by (cases x) (simp_all add: get_default_def of_option_def)

lemma get_default_Val: "get_default (Val v) d = Some v"
  by (simp add: get_default_def)

lemma get_of_option: "get (of_option x) = x"
  by (cases x) (simp_all add: get_def of_option_def)

lemma restore_then_insert_leader:
  assumes "complete_leader fromiso l"
  shows "\<exists>obj. restore_leader fromiso (leader_to_json l) = Inr obj
           \<and> (\<forall>tbl. l_id l \<notin> set (map l_id tbl) \<longrightarrow> insert_leader now obj tbl = Inr (tbl @ [l]))"
proof -
  from assms obtain cd ia ca ua where f: "l_cell_day l = Some cd" "l_is_active l = Some ia"
    "l_created_at l = Some ca" "l_updated_at l = Some ua"
    and d: "dated fromiso (l_created_at l)" "dated fromiso (l_updated_at l)"
    by (auto simp: complete_leader_def dated_def split: option.splits)
  have "restore_leader fromiso (leader_to_json l)
        = Inr \<lparr>lo_id = Some (l_id l), lo_name = Some (l_name l), lo_zone = Some (l_zone l),
               lo_cell_day = l_cell_day l, lo_contact_number = l_contact_number l,
               lo_email = l_email l, lo_address = l_address l,
               lo_profile_picture = l_profile_picture l, lo_is_active = l_is_active l,
               lo_created_at = l_created_at l, lo_updated_at = l_updated_at l\<rparr>"
    using read_timestamp_dated [OF d(1)] read_timestamp_dated [OF d(2)]
    by (simp add: restore_leader_def leader_to_json_def try_bind_def getitem_def
          get_default_of_option get_of_option new_leader_def)
  moreover have "insert_leader now \<lparr>lo_id = Some (l_id l), lo_name = Some (l_name l), lo_zone = Some (l_zone l),
               lo_cell_day = l_cell_day l, lo_contact_number = l_contact_number l,
               lo_email = l_email l, lo_address = l_address l,
               lo_profile_picture = l_profile_picture l, lo_is_active = l_is_active l,
               lo_created_at = l_created_at l, lo_updated_at = l_updated_at l\<rparr> tbl = Inr (tbl @ [l])"
    if "l_id l \<notin> set (map l_id tbl)" for tbl
    using that f by (cases l) (simp add: insert_leader_def or_default_def)
  ultimately show ?thesis by blast
qed

lemma restore_then_insert_record:
  assumes "complete_record fromiso r"
  shows "\<exists>obj. restore_record fromiso (record_to_json r) = Inr obj
           \<and> (\<forall>tbl. r_id r \<notin> set (map r_id tbl)
                 \<longrightarrow> insert_service_record now obj tbl = Inr (tbl @ [r]))"
proof -
  from assms obtain sa where f: "submitted_at r = Some sa"
    and d: "dated fromiso (submitted_at r)" and v: "valid_date (service_date r)"
    by (auto simp: complete_record_def dated_def split: option.splits)
  have "restore_record fromiso (record_to_json r)
        = Inr \<lparr>ro_id = Some (r_id r), ro_leader_id = Some (leader_id r),
               ro_service_type = Some (service_type r), ro_service_date = service_date r,
               ro_sunday_attendance = Some (sunday_attendance r),
               ro_sunday_visitors = Some (sunday_visitors r),
               ro_cell_attendance = Some (cell_attendance r),
               ro_cell_visitors = Some (cell_visitors r),
               ro_cell_offering = Some (cell_offering r),
               ro_cell_decisions = Some (cell_decisions r),
               ro_notes = r_notes r, ro_submitted_at = submitted_at r\<rparr>"
    using read_timestamp_dated [OF d] strptime_isoformat [OF v]
    by (simp add: restore_record_def record_to_json_def try_bind_def getitem_def parse_date_def
          get_default_of_option get_default_Val new_service_record_def)
  moreover have "insert_service_record now \<lparr>ro_id = Some (r_id r), ro_leader_id = Some (leader_id r),
               ro_service_type = Some (service_type r), ro_service_date = service_date r,
               ro_sunday_attendance = Some (sunday_attendance r),
               ro_sunday_visitors = Some (sunday_visitors r),
               ro_cell_attendance = Some (cell_attendance r),
               ro_cell_visitors = Some (cell_visitors r),
               ro_cell_offering = Some (cell_offering r),
               ro_cell_decisions = Some (cell_decisions r),
               ro_notes = r_notes r, ro_submitted_at = submitted_at r\<rparr> tbl = Inr (tbl @ [r])"
    if "r_id r \<notin> set (map r_id tbl)" for tbl
    using that f by (cases r) (simp add: insert_service_record_def or_default_def)
  ultimately show ?thesis by blast
qed

lemma restore_then_insert_all:
  assumes "\<And>x. x \<in> set xs \<Longrightarrow>
             \<exists>obj. build (enc x) = Inr obj
               \<and> (\<forall>tbl. key x \<notin> set (map key tbl) \<longrightarrow> ins obj tbl = Inr (tbl @ [x]))"
  shows "\<exists>objs. for_each build (map enc xs) = Inr objs
           \<and> (\<forall>tbl. distinct (map key (tbl @ xs)) \<longrightarrow> insert_all ins objs tbl = Inr (tbl @ xs))"
  using assms
proof (induction xs)
  case Nil
  then show ?case by simp
next
  case (Cons x xs)
  from Cons.prems [of x] obtain obj where obj: "build (enc x) = Inr obj"
    and ins: "\<And>tbl. key x \<notin> set (map key tbl) \<Longrightarrow> ins obj tbl = Inr (tbl @ [x])"
    by auto
  from Cons.IH Cons.prems obtain objs where objs: "for_each build (map enc xs) = Inr objs"
    and all: "\<And>tbl. distinct (map key (tbl @ xs)) \<Longrightarrow> insert_all ins objs tbl = Inr (tbl @ xs)"
    by (meson list.set_intros(2))
  have "insert_all ins (obj # objs) tbl = Inr (tbl @ x # xs)"
    if d: "distinct (map key (tbl @ x # xs))" for tbl
  proof -
    from d have "key x \<notin> set (map key tbl)" by auto
    then have 1: "ins obj tbl = Inr (tbl @ [x])" by (rule ins)
    from d have "distinct (map key ((tbl @ [x]) @ xs))" by simp
    then have "insert_all ins objs (tbl @ [x]) = Inr ((tbl @ [x]) @ xs)" by (rule all)
    with 1 show ?thesis by simp
  qed
  with obj objs show ?case by simp
qed

section \<open>The claims\<close>



text \<open>
  C5. The trends loop keys a record by day for the periods week and month and by month
  for the period year. For any other token the window is the year's 365 days, and the
  branch that selects it sets the monthly format, but the loop tests the token against
  year again and so keys by day: with the token decade, a report made 60 days before
  today is selected and lands in the daily bucket 2024-01-04.
\<close>

theorem trends_unrecognized_period_keys_by_day:
  "analytics_trends \<lparr>year = 2024, month = 3, day = 4\<rparr> (Some ''decade'') None ex_store
     = [(''2024-01-04'',
         \<lparr>attendance = 20, visitors = 3, offering = 301 / 2, decisions = 2, services = 1\<rparr>)]"
  by (simp add: analytics_trends_def trends_records_def period_arg_def text_arg_def
        trends_start_date_def join_leader_def date_key_def add_record_def zero_stats_def
        attendance_of_def visitors_of_def offering_of_def decisions_of_def
        date_eval fmt_eval ex_eval)

text \<open>The three recognised tokens bucket as documented.\<close>

theorem trends_key_granularity:
  "date_key ''week'' d = strftime_ymd d \<and> date_key ''month'' d = strftime_ymd d
   \<and> date_key ''year'' d = strftime_ym d"
  by (simp add: date_key_def)


text \<open>
  C10. In every overview result the service counters of the zone groups add up to the
  number of selected records.
\<close>

theorem zone_services_sum_to_total_records:
  "sum_list (map (\<lambda>(z, st). services st)
      (zone_stats (analytics_overview id_eq today period_a zone_a leader_a s)))
     = total_records (analytics_overview id_eq today period_a zone_a leader_a s)"
  unfolding analytics_overview_def Let_def
  by (simp add: sum_zone_fold [where h = "\<lambda>r. 1"] add_record_simps zero_stats_simps
        sum_const_one)

text \<open>
  C2. For a record of type sunday, the offering and the decisions that enter the overview
  totals, the accumulators of the zone, leader and trends groups, the entry of the list
  of recent submissions and the row of the CSV export are all 0, whatever the cell
  columns of the record hold.
\<close>

theorem sunday_offering_and_decisions_are_zero:
  assumes "service_type r = ''sunday''"
  shows "offering_of r = 0 \<and> decisions_of r = 0
       \<and> offering (add_record r st) = offering st \<and> decisions (add_record r st) = decisions st
       \<and> sum_list (map (\<lambda>(r, l). cell_offering r)
             (filter (\<lambda>(r, l). service_type r = ''cell'') ((r, l) # rs)))
           = sum_list (map (\<lambda>(r, l). cell_offering r)
               (filter (\<lambda>(r, l). service_type r = ''cell'') rs))
       \<and> sum_list (map (\<lambda>(r, l). cell_decisions r)
             (filter (\<lambda>(r, l). service_type r = ''cell'') ((r, l) # rs)))
           = sum_list (map (\<lambda>(r, l). cell_decisions r)
               (filter (\<lambda>(r, l). service_type r = ''cell'') rs))
       \<and> (case submission_entry (r, l) of
            Inl e \<Rightarrow> submitted_at r = None
          | Inr e \<Rightarrow> sub_offering e = 0 \<and> sub_decisions e = 0)
       \<and> (case csv_row (r, l) of
            Inl e \<Rightarrow> submitted_at r = None
          | Inr row \<Rightarrow> row ! 7 = CInt 0 \<and> row ! 8 = CInt 0)"
  using assms
  by (simp add: offering_of_def decisions_of_def add_record_def submission_entry_def
        csv_row_def split: option.splits)

theorem sunday_offering_and_decisions_are_zero_witness:
  "service_type ex_sunday_record = ''sunday''
   \<and> cell_offering ex_sunday_record = 75 \<and> cell_decisions ex_sunday_record = 3
   \<and> offering_of ex_sunday_record = 0 \<and> decisions_of ex_sunday_record = 0
   \<and> csv_row (ex_sunday_record, ex_leader)
       = Inr [CInt 2, CStr ''Leader 1'', CStr ''Chestnut'', CStr ''sunday'', CStr ''2024-01-07'',
              CInt 45, CInt 4, CInt 0, CInt 0, CStr ''Guest speaker'', CStr ''2024-01-04 18:30'']"
proof -
  have ty: "service_type ex_sunday_record = ''sunday''"
    by (simp add: ex_sunday_record_def)
  have row: "csv_row (ex_sunday_record, ex_leader)
       = Inr [CInt 2, CStr ''Leader 1'', CStr ''Chestnut'', CStr ''sunday'', CStr ''2024-01-07'',
              CInt 45, CInt 4, CInt 0, CInt 0, CStr ''Guest speaker'', CStr ''2024-01-04 18:30'']"
    by (simp add: csv_row_def ex_sunday_record_def ex_leader_def ex_time_def strftime_ymd_hm_def
          fmt_eval)
  have vals: "cell_offering ex_sunday_record = 75 \<and> cell_decisions ex_sunday_record = 3"
    by (simp add: ex_sunday_record_def)
  have zero: "offering_of ex_sunday_record = 0 \<and> decisions_of ex_sunday_record = 0"
    using sunday_offering_and_decisions_are_zero [OF ty, where st = zero_stats and l = ex_leader and rs = "[]"]
    by blast
  from ty row vals zero show ?thesis by blast
qed





text \<open>
  C6. An upload that is rejected (bytes that are not JSON, an entry of the document that
  lacks a required key, or a file name that does not end in \<open>.json\<close>) is answered with
  a failure, and the leaders and the records of the store are as they were before.
\<close>

theorem restore_rejects_and_keeps_store:
  assumes "rejected file"
  shows "\<exists>e. restore_data fromiso now (Some file) s = (Inl e, s)"
proof (cases "endswith (u_filename file) ''.json'' \<and> u_filename file \<noteq> []")
  case False
  then show ?thesis by (auto simp: restore_data_def)
next
  case True
  have "\<exists>e. restore_body fromiso now (u_content file) s = Inl e"
  proof (cases "restore_body fromiso now (u_content file) s")
    case (Inl e)
    then show ?thesis by simp
  next
    case (Inr s')
    from restore_body_rejects [OF Inr] assms True show ?thesis
      by (auto simp: rejected_def split: upload_content.splits)
  qed
  with True show ?thesis by (auto simp: restore_data_def)
qed

theorem restore_rejects_and_keeps_store_witness:
  "rejected ex_upload_txt \<and> rejected ex_upload_garbled \<and> rejected ex_upload_nameless
   \<and> (\<exists>e. restore_data ex_fromisoformat ex_restore_time (Some ex_upload_txt) ex_store = (Inl e, ex_store))
   \<and> (\<exists>e. restore_data ex_fromisoformat ex_restore_time (Some ex_upload_garbled) ex_store = (Inl e, ex_store))
   \<and> (\<exists>e. restore_data ex_fromisoformat ex_restore_time (Some ex_upload_nameless) ex_store = (Inl e, ex_store))"
proof -
  have 1: "rejected ex_upload_txt"
    by (simp add: rejected_def ex_upload_txt_def endswith_def)
  have 2: "rejected ex_upload_garbled"
    by (simp add: rejected_def ex_upload_garbled_def)
  have 3: "rejected ex_upload_nameless"
    by (simp add: rejected_def ex_upload_nameless_def listed_def leader_lacks_key_def)
  from 1 2 3 restore_rejects_and_keeps_store [OF 1] restore_rejects_and_keeps_store [OF 2]
    restore_rejects_and_keeps_store [OF 3]
  show ?thesis by blast
qed

text \<open>
  C1. For a reproducible store (distinct keys; every leader with its cell day, its active
  flag and both timestamps set; every record with a calendar date and its submission time
  set; timestamps that \<open>fromisoformat\<close> reads back), restoring the document that backup
  produces, uploaded under a name that ends in \<open>.json\<close>, into any store succeeds and
  leaves exactly the leaders and the records of the original, with their keys and
  timestamps.
\<close>

theorem backup_restore_round_trip:
  assumes "reproducible fromiso s" and "endswith name ''.json''"
  shows "restore_data fromiso restore_time
           (Some \<lparr>u_filename = name, u_content = JsonObject (backup_data backup_time s)\<rparr>) s0
         = (Inr (), s)"
proof -
  from assms(1) have dl: "distinct (map l_id (leaders s))"
    and dr: "distinct (map r_id (service_records s))"
    and cl: "\<And>l. l \<in> set (leaders s) \<Longrightarrow> complete_leader fromiso l"
    and cr: "\<And>r. r \<in> set (service_records s) \<Longrightarrow> complete_record fromiso r"
    by (auto simp: reproducible_def list_all_iff)
  from restore_then_insert_all [of "leaders s" "restore_leader fromiso" leader_to_json l_id
      "insert_leader restore_time", OF restore_then_insert_leader [OF cl]]
  obtain lobjs where lobjs: "for_each (restore_leader fromiso) (map leader_to_json (leaders s)) = Inr lobjs"
    and lins: "insert_all (insert_leader restore_time) lobjs [] = Inr (leaders s)"
    using dl by fastforce
  from restore_then_insert_all [of "service_records s" "restore_record fromiso" record_to_json r_id
      "insert_service_record restore_time", OF restore_then_insert_record [OF cr]]
  obtain robjs where robjs: "for_each (restore_record fromiso) (map record_to_json (service_records s)) = Inr robjs"
    and rins: "insert_all (insert_service_record restore_time) robjs [] = Inr (service_records s)"
    using dr by fastforce
  have body: "restore_body fromiso restore_time (JsonObject (backup_data backup_time s)) s0 = Inr s"
    by (simp add: restore_body_def backup_data_def entries_of_def get_default_Val try_bind_Inr
          lobjs robjs lins rins Let_def)
  from assms(2) have "name \<noteq> []" by (auto simp: endswith_def)
  with assms(2) body show ?thesis by (simp add: restore_data_def)
qed

theorem backup_restore_round_trip_witness:
  "reproducible ex_fromisoformat ex_store \<and> endswith ''church_backup.json'' ''.json''
   \<and> restore_data ex_fromisoformat ex_restore_time (Some ex_upload) empty_store = (Inr (), ex_store)"
proof -
  have 1: "reproducible ex_fromisoformat ex_store"
    by (simp add: reproducible_def complete_leader_def complete_record_def dated_def
          ex_fromisoformat_def isoformat_def valid_date_def days_in_month_def is_leap_def
          fmt_eval ex_eval)
  have 2: "endswith ''church_backup.json'' ''.json''"
    by (simp add: endswith_def)
  from backup_restore_round_trip [OF 1 2, of ex_restore_time ex_restore_time empty_store] 1 2
  show ?thesis by (simp add: ex_upload_def)
qed

text \<open>
  A leader without a creation time is backed up with \<open>null\<close>, which the restore loop
  skips, so the restored row is created at the time of the restore.
\<close>

theorem backup_restore_undated_counterexample:
  "map l_created_at (leaders ex_store_undated) = [None]
   \<and> map l_created_at (leaders (snd (restore_data ex_fromisoformat ex_restore_time
        (Some \<lparr>u_filename = ''church_backup.json'',
               u_content = JsonObject (backup_data ex_restore_time ex_store_undated)\<rparr>)
        empty_store))) = [Some ex_restore_time]"
  by (simp add: ex_store_undated_def empty_store_def ex_fromisoformat_def restore_eval
        fmt_eval ex_eval strptime_eval)

end
